theory Spec2Isabelle
  imports Complex_Main "HOL-Library.Sublist" "HOL-Library.AList"
    "HOL-Library.Char_ord" "HOL-Library.List_Lexorder"
begin

section \<open>Python values shared by both modules\<close>

text \<open>
  The two modules are Python 2. A \<open>str\<close> is a byte string, modelled as
  \<^typ>\<open>string\<close>. Floats are modelled as exact rationals: every quotient the code
  forms has integer operands, and the claims below are about the exact values.
  Every exception and every \<open>sys.exit()\<close> the modelled code can reach is a value
  of \<open>error\<close>.
\<close>

datatype error =
    MissingMetadata string
  | KeyError string
  | IndexError
  | ValueError string
  | ZeroDivisionError

text \<open>
  A \<open>dict\<close> with string keys is an association list with one entry per key.
  Python 2 iterates a dict in an order of its own; the model iterates in the order
  of first insertion, and nothing proved below depends on that order.
\<close>

type_synonym 'v dict = "(string \<times> 'v) list"

text \<open>\<open>d.get(k, default)\<close>\<close>

definition dict_get :: "'v dict \<Rightarrow> string \<Rightarrow> 'v \<Rightarrow> 'v" where
  "dict_get d k dflt = (case map_of d k of None \<Rightarrow> dflt | Some v \<Rightarrow> v)"

text \<open>\<open>d[k]\<close>, which raises \<open>KeyError\<close> on a missing key\<close>

definition dict_index :: "'v dict \<Rightarrow> string \<Rightarrow> error + 'v" where
  "dict_index d k = (case map_of d k of None \<Rightarrow> Inl (KeyError k) | Some v \<Rightarrow> Inr v)"

text \<open>\<open>d[k] = v\<close>\<close>

definition dict_set :: "'v dict \<Rightarrow> string \<Rightarrow> 'v \<Rightarrow> 'v dict" where
  "dict_set d k v = AList.update k v d"

definition keys :: "'v dict \<Rightarrow> string list" where
  "keys d = map fst d"

text \<open>\<open>xs[i]\<close> for \<open>i \<ge> 0\<close>, which raises \<open>IndexError\<close> out of range\<close>

definition list_index :: "'a list \<Rightarrow> nat \<Rightarrow> error + 'a" where
  "list_index xs i = (if i < length xs then Inr (xs ! i) else Inl IndexError)"

text \<open>\<open>float(a) / b\<close> on two integers\<close>

definition py_div :: "int \<Rightarrow> int \<Rightarrow> error + rat" where
  "py_div a b = (if b = 0 then Inl ZeroDivisionError else Inr (of_int a / of_int b))"

text \<open>A \<open>for\<close> loop whose body can raise: the first error ends the loop.\<close>

fun for_each :: "('a \<Rightarrow> 's \<Rightarrow> 'e + 's) \<Rightarrow> 'a list \<Rightarrow> 's \<Rightarrow> 'e + 's" where
  "for_each body [] s = Inr s"
| "for_each body (x # xs) s =
     (case body x s of Inl e \<Rightarrow> Inl e | Inr s' \<Rightarrow> for_each body xs s')"

text \<open>\<open>s.split(c)\<close> for a one-character separator: never empty, fields in order.\<close>

fun split :: "char \<Rightarrow> string \<Rightarrow> string list" where
  "split c [] = [[]]"
| "split c (x # xs) =
     (if x = c then [] # split c xs
      else (case split c xs of
              [] \<Rightarrow> [[x]]
            | w # ws \<Rightarrow> (x # w) # ws))"

text \<open>\<open>os.path.join(a, b)\<close> on POSIX paths\<close>

definition path_join :: "string \<Rightarrow> string \<Rightarrow> string" where
  "path_join a b =
     (if prefix ''/'' b then b
      else if a = [] \<or> suffix ''/'' a then a @ b
      else a @ ''/'' @ b)"

section \<open>consistencyTest.py\<close>

subsection \<open>\<open>ConsistencyTest.__genomeId\<close>\<close>

definition genomeId :: "string \<Rightarrow> string" where
  "genomeId taxaLabel =
     (if prefix ''IMG_'' taxaLabel then drop 4 taxaLabel
      else if CHR ''|'' \<in> set taxaLabel then
        (case split (CHR ''|'') taxaLabel of [] \<Rightarrow> [] | g # _ \<Rightarrow> g)
      else taxaLabel)"

subsection \<open>Trees and the taxonomy table\<close>

text \<open>
  The tree reader is the external library dendropy; the model takes the parsed
  tree. A node without children is a leaf and carries its taxon label; a node with
  children is internal. \<open>leaf_nodes\<close> and \<open>internal_nodes\<close> list the nodes in
  preorder, as the library does; \<open>leaf_nodes\<close> of a node lists the leaves below it.
\<close>

datatype tree = Leaf string | Node tree "tree list"

fun leaf_nodes :: "tree \<Rightarrow> string list" where
  "leaf_nodes (Leaf label) = [label]"
| "leaf_nodes (Node t ts) = leaf_nodes t @ concat (map leaf_nodes ts)"

fun internal_nodes :: "tree \<Rightarrow> tree list" where
  "internal_nodes (Leaf label) = []"
| "internal_nodes (Node t ts) =
     Node t ts # internal_nodes t @ concat (map internal_nodes ts)"

text \<open>
  \<open>metadata\<close> is the table read from the IMG metadata file by an external
  library: organism identifier to taxonomy vector (the \<open>'taxonomy'\<close> entry of each
  record, which is all that \<open>genomeIdToTaxonomy\<close> keeps).
\<close>

type_synonym taxonomy = "string list"

subsection \<open>Scores\<close>

text \<open>
  A value of a consistency dict: a number (the initial \<open>0\<close> or a float) or the
  string \<open>'N/A'\<close>.
\<close>

datatype score = Num rat | NA

text \<open>
  \<open>c > consistencyDict[r][taxa]\<close>: Python 2 orders every number before every
  string.
\<close>

fun exceeds :: "rat \<Rightarrow> score \<Rightarrow> bool" where
  "exceeds c (Num v) = (c > v)"
| "exceeds c NA = False"

subsection \<open>The state of \<open>ConsistencyTest.run\<close>\<close>

text \<open>
  What a report file holds is modelled by its rows of tab-separated cells.
  \<open>NumStr v\<close> stands for \<open>str(v)\<close> and \<open>Fmt2 v\<close> for \<open>'%.2f' % v\<close>: how a number
  is printed is not modelled.
\<close>

datatype cell = Str string | IntStr int | NumStr rat | Fmt2 rat

text \<open>
  What the run leaves behind: the files it opened for writing with the rows
  written so far, the lines printed, the messages logged (format and argument) and
  the shell commands issued.
\<close>

record world =
  files :: "cell list list dict"
  stdout :: "string list"
  logged :: "(string \<times> int) list"
  commands :: "string list"

text \<open>\<open>fout = open(path, 'w')\<close> and the writing of one row to an open file\<close>

definition open_w :: "string \<Rightarrow> world \<Rightarrow> world" where
  "open_w path w = w\<lparr>files := dict_set (files w) path []\<rparr>"

definition write_row :: "string \<Rightarrow> cell list \<Rightarrow> world \<Rightarrow> world" where
  "write_row path row w = w\<lparr>files := dict_set (files w) path (dict_get (files w) path [] @ [row])\<rparr>"

text \<open>The local variables of \<open>run\<close> that outlive one statement.\<close>

record run_state =
  allResults :: "score dict list dict"
  allTaxa :: "string set list"
  taxaCounts :: "int list dict"
  avgConsistency :: "rat list dict"
  totals :: "int dict list"
  consistencyDict :: "score dict list"
  totalValidLeaves :: int
  filteredGeneTrees :: int
  retainedGeneTrees :: int
  world :: world

record config =
  geneTreeDir :: string
  treeExtension :: string
  consistencyThreshold :: rat
  minTaxaForAverage :: int
  outputFile :: string
  outputDir :: string

subsection \<open>The totals pass (lines 97--121)\<close>

text \<open>The body of \<open>for r in xrange(0, 3)\<close> at lines 116--119.\<close>

definition rank_step :: "taxonomy \<Rightarrow> nat \<Rightarrow> run_state \<Rightarrow> error + run_state" where
  "rank_step taxonomy r s =
     (case list_index taxonomy r of
        Inl e \<Rightarrow> Inl e
      | Inr t \<Rightarrow>
          Inr (s\<lparr>totals := (totals s)[r := dict_set (totals s ! r) t
                                    (dict_get (totals s ! r) t 0 + 1)],
                 consistencyDict :=
                   (consistencyDict s)[r := dict_set (consistencyDict s ! r) t (Num 0)],
                 allTaxa := (allTaxa s)[r := insert t (allTaxa s ! r)]\<rparr>))"

text \<open>The body of \<open>for leaf in leaves\<close> at lines 107--119.\<close>

definition leaf_step :: "taxonomy dict \<Rightarrow> string \<Rightarrow> run_state \<Rightarrow> error + run_state" where
  "leaf_step metadata label s =
     (let gid = genomeId label in
      case map_of metadata gid of
        None \<Rightarrow> Inl (MissingMetadata gid)
      | Some taxonomy \<Rightarrow>
          for_each (rank_step taxonomy) [0, 1, 2]
            (s\<lparr>totalValidLeaves := totalValidLeaves s + 1\<rparr>))"

subsection \<open>The node scan (lines 124--153)\<close>

text \<open>The body of \<open>for leaf in leaves\<close> at lines 130--133.\<close>

definition leafCounts_step ::
  "taxonomy dict \<Rightarrow> nat \<Rightarrow> string \<Rightarrow> int dict \<Rightarrow> error + int dict" where
  "leafCounts_step metadata r label leafCounts =
     (let gid = genomeId label in
      case dict_index metadata gid of
        Inl e \<Rightarrow> Inl e
      | Inr taxonomy \<Rightarrow>
          (case list_index taxonomy r of
             Inl e \<Rightarrow> Inl e
           | Inr t \<Rightarrow> Inr (dict_set leafCounts t (dict_get leafCounts t 0 + 1))))"

text \<open>
  The two denominators of lines 144 and 151, from \<open>totalTaxaCount\<close>, the number of
  leaves under the node, \<open>totalValidLeaves\<close> and \<open>leafCounts.get(taxa, 0)\<close>.
\<close>

definition direct_denominator :: "int \<Rightarrow> int \<Rightarrow> int \<Rightarrow> int" where
  "direct_denominator totalTaxaCount n_leaves taxaCount =
     totalTaxaCount + (n_leaves - taxaCount)"

definition other_denominator :: "int \<Rightarrow> int \<Rightarrow> int \<Rightarrow> int \<Rightarrow> int" where
  "other_denominator totalTaxaCount n_leaves n_valid count_under =
     totalTaxaCount + (n_valid - n_leaves - (totalTaxaCount - count_under))"

text \<open>
  \<open>if c > consistencyDict[r][taxa]: consistencyDict[r][taxa] = c\<close>
\<close>

definition raise_to :: "score dict \<Rightarrow> string \<Rightarrow> rat \<Rightarrow> error + score dict" where
  "raise_to d taxa c =
     (case dict_index d taxa of
        Inl e \<Rightarrow> Inl e
      | Inr cur \<Rightarrow> Inr (if exceeds c cur then dict_set d taxa (Num c) else d))"

text \<open>
  The body of \<open>for taxa in consistencyDict[r]\<close> at lines 137--153, on the dict
  \<open>consistencyDict[r]\<close>.
\<close>

definition taxa_step ::
  "int dict \<Rightarrow> int dict \<Rightarrow> int \<Rightarrow> int \<Rightarrow> string \<Rightarrow> score dict \<Rightarrow> error + score dict" where
  "taxa_step totals_r leafCounts n_leaves n_valid taxa d =
     (case dict_index totals_r taxa of
        Inl e \<Rightarrow> Inl e
      | Inr totalTaxaCount \<Rightarrow>
          if totalTaxaCount \<le> 1 \<or> taxa = ''unclassified'' then Inr (dict_set d taxa NA)
          else
            (let taxaCount = dict_get leafCounts taxa 0 in
             case py_div taxaCount (direct_denominator totalTaxaCount n_leaves taxaCount) of
               Inl e \<Rightarrow> Inl e
             | Inr c \<Rightarrow>
                 (case raise_to d taxa c of
                    Inl e \<Rightarrow> Inl e
                  | Inr d1 \<Rightarrow>
                      (let taxaCount2 = totalTaxaCount - dict_get leafCounts taxa 0 in
                       case py_div taxaCount2
                              (other_denominator totalTaxaCount n_leaves n_valid
                                 (dict_get leafCounts taxa 0)) of
                         Inl e \<Rightarrow> Inl e
                       | Inr c2 \<Rightarrow> raise_to d1 taxa c2))))"

text \<open>The body of \<open>for r in xrange(0, 3)\<close> at lines 128--153, for one node.\<close>

definition node_rank_step ::
  "taxonomy dict \<Rightarrow> int dict list \<Rightarrow> int \<Rightarrow> string list \<Rightarrow> nat \<Rightarrow>
   score dict list \<Rightarrow> error + score dict list" where
  "node_rank_step metadata tots n_valid leaves r cd =
     (case for_each (leafCounts_step metadata r) leaves [] of
        Inl e \<Rightarrow> Inl e
      | Inr leafCounts \<Rightarrow>
          (case for_each (taxa_step (tots ! r) leafCounts (int (length leaves)) n_valid)
                  (keys (cd ! r)) (cd ! r) of
             Inl e \<Rightarrow> Inl e
           | Inr d \<Rightarrow> Inr (cd[r := d])))"

text \<open>The body of \<open>for node in internalNodes\<close>.\<close>

definition node_step ::
  "taxonomy dict \<Rightarrow> int dict list \<Rightarrow> int \<Rightarrow> tree \<Rightarrow> score dict list \<Rightarrow>
   error + score dict list" where
  "node_step metadata tots n_valid node cd =
     for_each (node_rank_step metadata tots n_valid (leaf_nodes node)) [0, 1, 2] cd"

definition node_scan :: "taxonomy dict \<Rightarrow> tree \<Rightarrow> run_state \<Rightarrow> error + run_state" where
  "node_scan metadata tree s =
     (case for_each (node_step metadata (totals s) (totalValidLeaves s))
             (internal_nodes tree) (consistencyDict s) of
        Inl e \<Rightarrow> Inl e
      | Inr cd \<Rightarrow> Inr (s\<lparr>consistencyDict := cd\<rparr>))"

subsection \<open>The detail report of one tree (lines 155--173)\<close>

fun score_cell :: "score \<Rightarrow> cell" where
  "score_cell (Num v) = Fmt2 (v * 100)"
| "score_cell NA = Str ''N/A''"

text \<open>The entries of a dict in the order of \<open>sorted(d.keys())\<close>.\<close>

definition sorted_items :: "'v dict \<Rightarrow> (string \<times> 'v) list" where
  "sorted_items d = sort_key fst d"

definition detail_rows :: "string \<Rightarrow> score dict list \<Rightarrow> cell list list" where
  "detail_rows treeFile cd =
     [Str ''Tree'' # concat (map (\<lambda>r. map (\<lambda>(taxa, v). Str taxa) (sorted_items (cd ! r))) [0, 1, 2]),
      Str treeFile #
        concat (map (\<lambda>r. map (\<lambda>(taxa, v). score_cell v) (sorted_items (cd ! r))) [0, 1, 2])]"

definition write_detail :: "config \<Rightarrow> string \<Rightarrow> score dict list \<Rightarrow> world \<Rightarrow> world" where
  "write_detail cfg treeFile cd w =
     (let path = path_join (path_join (outputDir cfg) ''consistency'') (treeFile @ ''.results.tsv'');
          rows = detail_rows treeFile cd
      in write_row path (rows ! 1) (write_row path (rows ! 0) (open_w path w)))"

subsection \<open>Rank averages (lines 176--187)\<close>

text \<open>The body of \<open>for taxa in consistencyDict[r]\<close> at lines 180--181.\<close>

definition average_step ::
  "int dict \<Rightarrow> int \<Rightarrow> score dict \<Rightarrow> string \<Rightarrow> rat list \<Rightarrow> error + rat list" where
  "average_step totals_r minTaxa d taxa sumConsistency =
     (case dict_index totals_r taxa of
        Inl e \<Rightarrow> Inl e
      | Inr n \<Rightarrow>
          if n > minTaxa then
            (case dict_index d taxa of
               Inl e \<Rightarrow> Inl e
             | Inr NA \<Rightarrow> Inr sumConsistency
             | Inr (Num v) \<Rightarrow> Inr (sumConsistency @ [v]))
          else Inr sumConsistency)"

text \<open>
  The body of \<open>for r in xrange(0, 3)\<close> at lines 178--186. The list holds the
  initial \<open>0\<close> or floats, so \<open>sum(..) / len(..)\<close> is the exact quotient.
\<close>

definition rank_average :: "int dict \<Rightarrow> int \<Rightarrow> score dict \<Rightarrow> error + rat" where
  "rank_average totals_r minTaxa d =
     (case for_each (average_step totals_r minTaxa d) (keys d) [] of
        Inl e \<Rightarrow> Inl e
      | Inr sumConsistency \<Rightarrow>
          Inr (if length sumConsistency > 0
               then sum_list sumConsistency / of_nat (length sumConsistency)
               else 0))"

definition averages :: "int \<Rightarrow> run_state \<Rightarrow> error + rat list" where
  "averages minTaxa s =
     for_each (\<lambda>r average.
                 case rank_average (totals s ! r) minTaxa (consistencyDict s ! r) of
                   Inl e \<Rightarrow> Inl e
                 | Inr a \<Rightarrow> Inr (average @ [a]))
       [0, 1, 2] []"

subsection \<open>One tree of the batch (lines 91--188)\<close>

text \<open>
  \<open>geneTrees\<close> is the directory listing of \<open>geneTreeDir\<close> with the tree the reader
  parses from each file. An error ends the run; it is returned with what the run
  has left behind by then. A missing organism identifier is printed before
  \<open>sys.exit()\<close>.
\<close>

definition abort :: "error \<Rightarrow> world \<Rightarrow> error \<times> world" where
  "abort e w =
     (case e of
        MissingMetadata gid \<Rightarrow>
          (e, w\<lparr>stdout := stdout w @ [''[Error] Genome is missing metadata: '' @ gid]\<rparr>)
      | _ \<Rightarrow> (e, w))"

text \<open>Lines 97--153: the totals pass, \<open>taxaCounts[treeFile]\<close> and the node scan.\<close>

definition scan_tree ::
  "taxonomy dict \<Rightarrow> string \<Rightarrow> tree \<Rightarrow> run_state \<Rightarrow> error + run_state" where
  "scan_tree metadata treeFile tree s =
     (case for_each (leaf_step metadata) (leaf_nodes tree)
             (s\<lparr>consistencyDict := [[], [], []], totals := [[], [], []],
                totalValidLeaves := 0\<rparr>) of
        Inl e \<Rightarrow> Inl e
      | Inr s1 \<Rightarrow>
          node_scan metadata tree
            (s1\<lparr>taxaCounts := dict_set (taxaCounts s1) treeFile
                   [totalValidLeaves s1, dict_get (totals s1 ! 0) ''Bacteria'' 0,
                    dict_get (totals s1 ! 0) ''Archaea'' 0]\<rparr>))"

definition tree_step ::
  "taxonomy dict \<Rightarrow> config \<Rightarrow> string \<times> tree \<Rightarrow> run_state \<Rightarrow> (error \<times> world) + run_state" where
  "tree_step metadata cfg entry s =
     (let treeFile = fst entry; tree = snd entry in
      if \<not> suffix (treeExtension cfg) treeFile then Inr s
      else
        (case scan_tree metadata treeFile tree s of
           Inl e \<Rightarrow> Inl (abort e (world s))
         | Inr s3 \<Rightarrow>
             (let s4 = s3\<lparr>world := write_detail cfg treeFile (consistencyDict s3)
                                      (world s3)\<rparr>
              in case averages (minTaxaForAverage cfg) s4 of
                   Inl e \<Rightarrow> Inl (abort e (world s4))
                 | Inr average \<Rightarrow>
                     Inr (s4\<lparr>avgConsistency :=
                               dict_set (avgConsistency s4) treeFile average,
                             allResults :=
                               dict_set (allResults s4) treeFile
                                 (consistencyDict s4)\<rparr>))))"

subsection \<open>The combined report and the counts (lines 190--239)\<close>

definition summary_header :: "string set list \<Rightarrow> cell list" where
  "summary_header taxa_seen =
     map Str [''Tree'', ''Short Desc.'', ''Long Desc.'', ''Alignment Length'', ''# Taxa'',
              ''# Bacteria'', ''# Archaea'', ''Avg. Consistency'',
              ''Avg. Domain Consistency'', ''Avg. Phylum Consistency'',
              ''Avg. Class Consistency'']
     @ concat (map (\<lambda>r. map Str (sorted_list_of_set (taxa_seen ! r))) [0, 1, 2])"

text \<open>\<open>treeFile[0:treeFile.find('.')]\<close>: without a dot, \<open>find\<close> is \<open>-1\<close> and the
  slice drops the last character.\<close>

definition find_char :: "char \<Rightarrow> string \<Rightarrow> int" where
  "find_char c s =
     (if c \<in> set s then int (length (takeWhile (\<lambda>x. x \<noteq> c) s)) else - 1)"

definition slice_to :: "string \<Rightarrow> int \<Rightarrow> string" where
  "slice_to s j = (if j < 0 then take (nat (int (length s) + j)) s else take (nat j) s)"

definition treeId_of :: "string \<Rightarrow> string" where
  "treeId_of treeFile = slice_to treeFile (find_char (CHR ''.'') treeFile)"

text \<open>Lines 209--212.\<close>

definition avgCon_of :: "rat list \<Rightarrow> rat" where
  "avgCon_of avgs = fold (\<lambda>r avgCon. avgCon + avgs ! r) [0, 1, 2] 0 / 3"

text \<open>Lines 224--232: the taxon cells of one row.\<close>

definition taxa_cells :: "string set list \<Rightarrow> score dict list \<Rightarrow> cell list" where
  "taxa_cells taxa_seen cd =
     concat (map (\<lambda>r. map (\<lambda>t. case map_of (cd ! r) t of
                                    Some v \<Rightarrow> score_cell v
                                  | None \<Rightarrow> Str ''N/A'')
                          (sorted_list_of_set (taxa_seen ! r)))
               [0, 1, 2])"

text \<open>The body of \<open>for treeFile in sorted(allResults.keys())\<close>.\<close>

definition row_step ::
  "(string \<times> string) dict \<Rightarrow> config \<Rightarrow> string \<Rightarrow> run_state \<Rightarrow> (error \<times> world) + run_state" where
  "row_step descDict cfg treeFile s =
     (case dict_index (allResults s) treeFile of
        Inl e \<Rightarrow> Inl (abort e (world s))
      | Inr cd \<Rightarrow>
          (let treeId = treeId_of treeFile in
           case dict_index descDict treeId of
             Inl e \<Rightarrow> Inl (abort e (world s))
           | Inr desc \<Rightarrow>
               (case dict_index (taxaCounts s) treeFile of
                  Inl e \<Rightarrow> Inl (abort e (world s))
                | Inr counts \<Rightarrow>
                    (case dict_index (avgConsistency s) treeFile of
                       Inl e \<Rightarrow> Inl (abort e (world s))
                     | Inr avgs \<Rightarrow>
                         (let avgCon = avgCon_of avgs;
                              retained = (avgCon \<ge> consistencyThreshold cfg);
                              row = [Str treeId, Str (fst desc), Str (snd desc)]
                                    @ map IntStr (take 3 counts)
                                    @ [NumStr avgCon]
                                    @ map NumStr (take 3 avgs)
                                    @ taxa_cells (allTaxa s) cd;
                              w1 = (if retained
                                    then (world s)\<lparr>commands := commands (world s) @
                                           [''cp '' @ path_join (geneTreeDir cfg) treeFile @ '' ''
                                            @ path_join (outputDir cfg) treeFile]\<rparr>
                                    else world s)
                          in Inr (s\<lparr>retainedGeneTrees :=
                                      (if retained then retainedGeneTrees s + 1
                                       else retainedGeneTrees s),
                                    filteredGeneTrees :=
                                      (if retained then filteredGeneTrees s
                                       else filteredGeneTrees s + 1),
                                    world := write_row (outputFile cfg) row w1\<rparr>))))))"

definition run_init :: run_state where
  "run_init =
     \<lparr>allResults = [], allTaxa = [{}, {}, {}], taxaCounts = [], avgConsistency = [],
      totals = [[], [], []], consistencyDict = [[], [], []], totalValidLeaves = 0,
      filteredGeneTrees = 0, retainedGeneTrees = 0,
      world = \<lparr>files = [], stdout = [], logged = [], commands = []\<rparr>\<rparr>"

text \<open>
  \<open>ConsistencyTest.run\<close> from line 85 on. The description table \<open>descDict\<close> and
  \<open>metadata\<close> are read from fixed database files before that and are taken as
  given, as is the emptied output directory. The result is the returned pair
  \<open>(filteredGeneTrees, retainedGeneTrees)\<close> with what the run left behind.
\<close>

definition run ::
  "taxonomy dict \<Rightarrow> (string \<times> string) dict \<Rightarrow> config \<Rightarrow> (string \<times> tree) list \<Rightarrow>
   (error \<times> world) + ((int \<times> int) \<times> world)" where
  "run metadata descDict cfg geneTrees =
     (case for_each (tree_step metadata cfg) geneTrees run_init of
        Inl a \<Rightarrow> Inl a
      | Inr s \<Rightarrow>
          (let s1 = s\<lparr>world := write_row (outputFile cfg) (summary_header (allTaxa s))
                                   (open_w (outputFile cfg) (world s)),
                      filteredGeneTrees := 0, retainedGeneTrees := 0\<rparr>
           in case for_each (row_step descDict cfg) (sort (keys (allResults s1))) s1 of
                Inl a \<Rightarrow> Inl a
              | Inr s2 \<Rightarrow>
                  Inr ((filteredGeneTrees s2, retainedGeneTrees s2),
                       (world s2)\<lparr>logged := logged (world s2) @
                          [(''    Retained gene trees: %d'', retainedGeneTrees s2),
                           (''    Filtered gene trees: %d'', filteredGeneTrees s2)]\<rparr>)))"

section \<open>Notions used to state the properties\<close>

text \<open>
  The taxon of a leaf at rank \<open>r\<close>, when its organism identifier is in the table
  and its taxonomy vector reaches rank \<open>r\<close>; the number of leaves of a list that
  carry a taxon.
\<close>

definition leaf_taxon :: "taxonomy dict \<Rightarrow> nat \<Rightarrow> string \<Rightarrow> string option" where
  "leaf_taxon metadata r label =
     (case map_of metadata (genomeId label) of
        None \<Rightarrow> None
      | Some taxonomy \<Rightarrow> if r < length taxonomy then Some (taxonomy ! r) else None)"

definition count_taxon :: "taxonomy dict \<Rightarrow> nat \<Rightarrow> string \<Rightarrow> string list \<Rightarrow> int" where
  "count_taxon metadata r taxa labels =
     int (length (filter (\<lambda>l. leaf_taxon metadata r l = Some taxa) labels))"

text \<open>Every leaf of a list has a taxonomy vector of at least three ranks.\<close>

definition resolved :: "taxonomy dict \<Rightarrow> string list \<Rightarrow> bool" where
  "resolved metadata labels =
     list_all (\<lambda>l. case map_of metadata (genomeId l) of
                      None \<Rightarrow> False
                    | Some taxonomy \<Rightarrow> 3 \<le> length taxonomy) labels"

text \<open>
  What one visit of a node does to the score of one taxon: \<open>bump\<close> is the
  conditional assignment of lines 145--146 and 152--153 on the stored value.
\<close>

definition bump :: "score \<Rightarrow> rat \<Rightarrow> score" where
  "bump v c = (if exceeds c v then Num c else v)"

definition updated_score :: "int \<Rightarrow> int \<Rightarrow> int \<Rightarrow> int \<Rightarrow> string \<Rightarrow> score \<Rightarrow> score" where
  "updated_score n n_leaves n_valid cnt taxa v =
     (if n \<le> 1 \<or> taxa = ''unclassified'' then NA
      else bump (bump v (of_int cnt / of_int (direct_denominator n n_leaves cnt)))
             (of_int (n - cnt) / of_int (other_denominator n n_leaves n_valid cnt)))"

text \<open>
  The same for the taxon \<open>taxa\<close> at rank \<open>r\<close> when the node \<open>node\<close> of \<open>tree\<close> is
  visited, with the counts written out.
\<close>

definition node_update ::
  "taxonomy dict \<Rightarrow> nat \<Rightarrow> tree \<Rightarrow> string \<Rightarrow> tree \<Rightarrow> score \<Rightarrow> score" where
  "node_update metadata r tree taxa node v =
     updated_score (count_taxon metadata r taxa (leaf_nodes tree))
       (int (length (leaf_nodes node))) (int (length (leaf_nodes tree)))
       (count_taxon metadata r taxa (leaf_nodes node)) taxa v"

text \<open>
  The two candidate scores of a taxon at a node as the specification words them:
  for the side under the node, and for the other side of the same bipartition.
\<close>

definition direct_score :: "taxonomy dict \<Rightarrow> nat \<Rightarrow> tree \<Rightarrow> string \<Rightarrow> tree \<Rightarrow> rat" where
  "direct_score metadata r tree taxa node =
     (let totalTaxaCount = count_taxon metadata r taxa (leaf_nodes tree);
          taxaCount = count_taxon metadata r taxa (leaf_nodes node);
          incongruent = int (length (leaf_nodes node)) - taxaCount
      in of_int taxaCount / of_int (totalTaxaCount + incongruent))"

definition complementary_score ::
  "taxonomy dict \<Rightarrow> nat \<Rightarrow> tree \<Rightarrow> string \<Rightarrow> tree \<Rightarrow> rat" where
  "complementary_score metadata r tree taxa node =
     (let totalTaxaCount = count_taxon metadata r taxa (leaf_nodes tree);
          taxaCount = totalTaxaCount - count_taxon metadata r taxa (leaf_nodes node);
          incongruent =
            (int (length (leaf_nodes tree)) - int (length (leaf_nodes node))) - taxaCount
      in of_int taxaCount / of_int (totalTaxaCount + incongruent))"

definition candidate_scores :: "taxonomy dict \<Rightarrow> nat \<Rightarrow> tree \<Rightarrow> string \<Rightarrow> rat list" where
  "candidate_scores metadata r tree taxa =
     concat (map (\<lambda>node. [direct_score metadata r tree taxa node,
                          complementary_score metadata r tree taxa node])
               (internal_nodes tree))"

text \<open>A stored value is \<open>'N/A'\<close> or a number between 0 and 1.\<close>

fun valid_score :: "score \<Rightarrow> bool" where
  "valid_score (Num q) = (0 \<le> q \<and> q \<le> 1)"
| "valid_score NA = True"

text \<open>
  The taxa of a rank that count towards its average, and the number stored for a
  taxon (0 for \<open>'N/A'\<close> and for a taxon that is not stored).
\<close>

definition qualifying :: "int dict \<Rightarrow> int \<Rightarrow> score dict \<Rightarrow> string list" where
  "qualifying totals_r minTaxa d =
     filter (\<lambda>taxa. dict_get totals_r taxa 0 > minTaxa \<and> dict_get d taxa NA \<noteq> NA) (keys d)"

definition score_value :: "score dict \<Rightarrow> string \<Rightarrow> rat" where
  "score_value d taxa = (case dict_get d taxa NA of Num q \<Rightarrow> q | NA \<Rightarrow> 0)"

section \<open>Properties\<close>

subsection \<open>Splitting\<close>

lemma split_not_Nil: "split c s \<noteq> []"
  by (induction s) (auto split: list.splits)

lemma split_first:
  "(case split c s of [] \<Rightarrow> [] | g # _ \<Rightarrow> g) = takeWhile (\<lambda>x. x \<noteq> c) s"
  by (induction s) (auto split: list.splits)

lemma takeWhile_before_sep: "c \<in> set l \<Longrightarrow> \<exists>rest. l = takeWhile (\<lambda>x. x \<noteq> c) l @ c # rest"
  by (induction l) auto

lemma sep_notin_takeWhile: "c \<notin> set (takeWhile (\<lambda>x. x \<noteq> c) l)"
  by (induction l) auto

subsection \<open>Organism identifiers\<close>

lemma genomeId_IMG: "prefix ''IMG_'' l \<Longrightarrow> l = ''IMG_'' @ genomeId l"
  by (auto simp: genomeId_def prefix_def)

lemma genomeId_sep:
  "\<not> prefix ''IMG_'' l \<Longrightarrow> CHR ''|'' \<in> set l \<Longrightarrow>
   genomeId l = takeWhile (\<lambda>x. x \<noteq> CHR ''|'') l"
  by (simp add: genomeId_def split_first)

text \<open>
  Claim C8. The organism identifier of a leaf label: a label that begins with
  \<open>IMG_\<close> loses that prefix (whether or not it also contains \<open>|\<close>); any other label
  that contains \<open>|\<close> yields the part before its first \<open>|\<close>; every other label is
  returned unchanged.
\<close>

theorem genomeId_rule:
  "(prefix ''IMG_'' l \<longrightarrow> l = ''IMG_'' @ genomeId l) \<and>
   (\<not> prefix ''IMG_'' l \<and> CHR ''|'' \<in> set l \<longrightarrow>
      (\<exists>rest. l = genomeId l @ CHR ''|'' # rest) \<and> CHR ''|'' \<notin> set (genomeId l)) \<and>
   (\<not> prefix ''IMG_'' l \<and> CHR ''|'' \<notin> set l \<longrightarrow> genomeId l = l)"
proof (intro conjI impI)
  assume "prefix ''IMG_'' l"
  then show "l = ''IMG_'' @ genomeId l" by (rule genomeId_IMG)
next
  assume a: "\<not> prefix ''IMG_'' l \<and> CHR ''|'' \<in> set l"
  then have g: "genomeId l = takeWhile (\<lambda>x. x \<noteq> CHR ''|'') l"
    by (simp add: genomeId_sep)
  from a have "\<exists>rest. l = takeWhile (\<lambda>x. x \<noteq> CHR ''|'') l @ CHR ''|'' # rest"
    by (intro takeWhile_before_sep) simp
  then show "\<exists>rest. l = genomeId l @ CHR ''|'' # rest"
    unfolding g .
next
  assume a: "\<not> prefix ''IMG_'' l \<and> CHR ''|'' \<in> set l"
  then have g: "genomeId l = takeWhile (\<lambda>x. x \<noteq> CHR ''|'') l"
    by (simp add: genomeId_sep)
  show "CHR ''|'' \<notin> set (genomeId l)"
    unfolding g by (rule sep_notin_takeWhile)
next
  assume "\<not> prefix ''IMG_'' l \<and> CHR ''|'' \<notin> set l"
  then show "genomeId l = l" by (simp add: genomeId_def)
qed

theorem genomeId_rule_witness:
  "prefix ''IMG_'' ''IMG_64|g1'' \<and> genomeId ''IMG_64|g1'' = ''64|g1'' \<and>
   \<not> prefix ''IMG_'' ''64|g1|x'' \<and> CHR ''|'' \<in> set ''64|g1|x'' \<and> genomeId ''64|g1|x'' = ''64'' \<and>
   \<not> prefix ''IMG_'' ''64'' \<and> CHR ''|'' \<notin> set ''64'' \<and> genomeId ''64'' = ''64''"
  using genomeId_rule [of "''IMG_64|g1''"] genomeId_rule [of "''64|g1|x''"]
    genomeId_rule [of "''64''"]
  by (simp add: genomeId_def)

end
